theory Spec2Isabelle
  imports Complex_Main
begin

text \<open>
  The telemetry interpreter of the lawnmower dashboard: the state taxonomy and
  distance function of \<^verbatim>\<open>LawnmowerAPI\<close>, the battery trend predictor of
  \<^verbatim>\<open>ChartManager\<close>, the ingestion handlers, message log and stuck detector
  of \<^verbatim>\<open>CockpitManager\<close>, and the status aggregator of \<^verbatim>\<open>StatusManager\<close>.
  The definitions come first, each named after the method it models; the
  properties follow.
\<close>

section \<open>State taxonomy (LawnmowerAPI.getStateName, LawnmowerAPI.getStateClass)\<close>

text \<open>
  The state id is an integer. Both lookups read a property of an object literal
  whose keys are the integers 0 to 5 and apply \<^verbatim>\<open>||\<close> with a fallback, so a
  missing key (\<^verbatim>\<open>undefined\<close>) and an empty string both give the fallback.
\<close>

definition stateNames :: "int \<Rightarrow> string option" where
  "stateNames =
     [0 \<mapsto> ''Station Charging'',
      1 \<mapsto> ''Station Charging Completed'',
      2 \<mapsto> ''Mowing'',
      3 \<mapsto> ''Returning to Station'',
      4 \<mapsto> ''Paused'',
      5 \<mapsto> ''Error'']"

definition stateClasses :: "int \<Rightarrow> string option" where
  "stateClasses =
     [0 \<mapsto> ''status-charging'',
      1 \<mapsto> ''status-charging'',
      2 \<mapsto> ''status-mowing'',
      3 \<mapsto> ''status-returning'',
      4 \<mapsto> ''status-paused'',
      5 \<mapsto> ''status-error'']"

text \<open>\<^verbatim>\<open>v || d\<close> on an optional string: \<^verbatim>\<open>undefined\<close> and \<^verbatim>\<open>''\<close> are falsy.\<close>

definition orElse :: "string option \<Rightarrow> string \<Rightarrow> string" where
  "orElse v d = (case v of None \<Rightarrow> d | Some s \<Rightarrow> if s = [] then d else s)"

definition getStateName :: "int \<Rightarrow> string" where
  "getStateName stateId = orElse (stateNames stateId) ''Unknown''"

definition getStateClass :: "int \<Rightarrow> string" where
  "getStateClass stateId = orElse (stateClasses stateId) ''''"

section \<open>JavaScript numbers and dates\<close>

text \<open>
  A JavaScript number is modelled as a real number or one of the three special
  values of IEEE 754. Finite arithmetic is exact here: rounding, overflow and
  the sign of zero are not modelled. The only division whose divisor can be zero
  in the code below is by a difference of two timestamps, which is \<^verbatim>\<open>+0\<close>, so a
  zero divisor is taken as \<^verbatim>\<open>+0\<close>.
\<close>

datatype jsnum = Fin real | PosInf | NegInf | NaN

fun js_neg :: "jsnum \<Rightarrow> jsnum" where
  "js_neg (Fin a) = Fin (- a)"
| "js_neg PosInf = NegInf"
| "js_neg NegInf = PosInf"
| "js_neg NaN = NaN"

fun js_add :: "jsnum \<Rightarrow> jsnum \<Rightarrow> jsnum" where
  "js_add (Fin a) (Fin b) = Fin (a + b)"
| "js_add NaN _ = NaN"
| "js_add _ NaN = NaN"
| "js_add PosInf NegInf = NaN"
| "js_add NegInf PosInf = NaN"
| "js_add PosInf _ = PosInf"
| "js_add NegInf _ = NegInf"
| "js_add (Fin a) b = b"

fun js_mul :: "jsnum \<Rightarrow> jsnum \<Rightarrow> jsnum" where
  "js_mul (Fin a) (Fin b) = Fin (a * b)"
| "js_mul NaN _ = NaN"
| "js_mul _ NaN = NaN"
| "js_mul (Fin a) b = (if a = 0 then NaN else if 0 < a then b else js_neg b)"
| "js_mul a (Fin b) = (if b = 0 then NaN else if 0 < b then a else js_neg a)"
| "js_mul PosInf b = b"
| "js_mul NegInf b = js_neg b"

fun js_div :: "jsnum \<Rightarrow> jsnum \<Rightarrow> jsnum" where
  "js_div (Fin a) (Fin b) =
     (if b \<noteq> 0 then Fin (a / b)
      else if 0 < a then PosInf else if a < 0 then NegInf else NaN)"
| "js_div NaN _ = NaN"
| "js_div _ NaN = NaN"
| "js_div (Fin a) _ = Fin 0"
| "js_div PosInf (Fin b) = (if 0 \<le> b then PosInf else NegInf)"
| "js_div NegInf (Fin b) = (if 0 \<le> b then NegInf else PosInf)"
| "js_div _ _ = NaN"

text \<open>\<^verbatim>\<open>a < b\<close>; \<^verbatim>\<open>a > b\<close> is \<open>js_less b a\<close>. Every comparison with NaN is false.\<close>

fun js_less :: "jsnum \<Rightarrow> jsnum \<Rightarrow> bool" where
  "js_less (Fin a) (Fin b) = (a < b)"
| "js_less (Fin a) PosInf = True"
| "js_less (Fin a) NegInf = False"
| "js_less NegInf (Fin b) = True"
| "js_less NegInf PosInf = True"
| "js_less NegInf NegInf = False"
| "js_less PosInf _ = False"
| "js_less NaN _ = False"
| "js_less _ NaN = False"

text \<open>Decimal digits of an integer, as a template literal prints them.\<close>

fun showNat :: "nat \<Rightarrow> string" where
  "showNat n =
     (if n < 10 then [''0123456789'' ! n]
      else showNat (n div 10) @ [''0123456789'' ! (n mod 10)])"

declare showNat.simps [simp del]

definition showInt :: "int \<Rightarrow> string" where
  "showInt i = (if i < 0 then CHR ''-'' # showNat (nat (- i)) else showNat (nat i))"

text \<open>
  \<^verbatim>\<open>Math.round(v)\<close> rounds half up; \<open>roundedToString v\<close> is the text of
  \<^verbatim>\<open>${Math.round(v)}\<close> (exponent notation for values from \<^verbatim>\<open>1e21\<close> is not
  modelled).
\<close>

definition Math_round :: "real \<Rightarrow> int" where
  "Math_round v = \<lfloor>v + 1 / 2\<rfloor>"

fun roundedToString :: "jsnum \<Rightarrow> string" where
  "roundedToString (Fin v) = showInt (Math_round v)"
| "roundedToString PosInf = ''Infinity''"
| "roundedToString NegInf = ''-Infinity''"
| "roundedToString NaN = ''NaN''"

text \<open>
  A \<^verbatim>\<open>Date\<close> holds a whole number of milliseconds or is invalid.
  \<^verbatim>\<open>new Date(v)\<close> clips: a value that is not finite or lies beyond
  \<^verbatim>\<open>8.64e15\<close> gives an invalid date, any other value is truncated towards zero.
\<close>

datatype jsdate = Date int | InvalidDate

definition newDate :: "jsnum \<Rightarrow> jsdate" where
  "newDate v =
     (case v of
        Fin a \<Rightarrow>
          if 8640000000000000 < \<bar>a\<bar> then InvalidDate
          else Date (if 0 \<le> a then \<lfloor>a\<rfloor> else \<lceil>a\<rceil>)
      | _ \<Rightarrow> InvalidDate)"

section \<open>Trend predictor (ChartManager.calculateBatteryPrediction)\<close>

text \<open>
  An entry of \<^verbatim>\<open>batteryData\<close> has a valid \<^verbatim>\<open>timestamp\<close> (milliseconds) and a
  finite \<^verbatim>\<open>level\<close>. The method reads \<^verbatim>\<open>this.batteryData\<close> and the current
  device state (\<^verbatim>\<open>getCurrentDeviceState()\<close>: the last state the cockpit stored
  for the device, \<open>None\<close> when it stored none); both are arguments here. A point
  of the prediction is \<^verbatim>\<open>{x, y}\<close>; the result \<open>None\<close> is \<^verbatim>\<open>null\<close>.
\<close>

record timed =
  timestamp :: int

record batterySample = timed +
  level :: real

record point =
  point_x :: jsdate
  point_y :: real

record prediction =
  data :: "point list"
  label :: string

definition calculateBatteryPrediction ::
  "batterySample list \<Rightarrow> int option \<Rightarrow> prediction option" where
  "calculateBatteryPrediction batteryData currentState =
     (if length batteryData < 2 then None
      else
        let recentData = drop (length batteryData - 10) batteryData in
        if length recentData < 2 then None
        else
          let timeSpan = Fin (of_int (timestamp (last recentData) - timestamp (hd recentData)));
              levelChange = Fin (level (last recentData) - level (hd recentData));
              ratePerMs = js_div levelChange timeSpan;
              currentLevel = level (last recentData);
              currentTime = timestamp (last recentData)
          in
            if currentState = Some 0 then
              (if js_less (Fin 0) ratePerMs then
                 let timeToFull = js_div (Fin (100 - currentLevel)) (js_mul ratePerMs (Fin 60000));
                     fullTime = newDate (js_add (Fin (of_int currentTime))
                                                (js_mul timeToFull (Fin 60000)))
                 in Some \<lparr>data = [\<lparr>point_x = Date currentTime, point_y = currentLevel\<rparr>,
                                  \<lparr>point_x = fullTime, point_y = 100\<rparr>],
                           label = ''Charging complete: '' @ roundedToString timeToFull @ '' min''\<rparr>
               else None)
            else if currentState \<in> {Some 2, Some 3, Some 4, Some 5} then
              (if js_less ratePerMs (Fin 0) then
                 let timeToEmpty = js_div (Fin currentLevel) (js_mul (js_neg ratePerMs) (Fin 60000));
                     emptyTime = newDate (js_add (Fin (of_int currentTime))
                                                 (js_mul timeToEmpty (Fin 60000)))
                 in Some \<lparr>data = [\<lparr>point_x = Date currentTime, point_y = currentLevel\<rparr>,
                                  \<lparr>point_x = emptyTime, point_y = 0\<rparr>],
                           label = ''Battery empty: '' @ roundedToString timeToEmpty @ '' min''\<rparr>
               else None)
            else None)"

section \<open>Geospatial distance (LawnmowerAPI.calculateDistance)\<close>

text \<open>\<^verbatim>\<open>Math.atan2(y, x)\<close> on finite arguments; a zero is taken as \<^verbatim>\<open>+0\<close>.\<close>

definition atan2 :: "real \<Rightarrow> real \<Rightarrow> real" where
  "atan2 y x =
     (if 0 < x then arctan (y / x)
      else if x < 0 then (if 0 \<le> y then arctan (y / x) + pi else arctan (y / x) - pi)
      else if 0 < y then pi / 2 else if y < 0 then - pi / 2 else 0)"

definition calculateDistance :: "real \<Rightarrow> real \<Rightarrow> real \<Rightarrow> real \<Rightarrow> real" where
  "calculateDistance lat1 lon1 lat2 lon2 =
     (let R = 6371000;
          phi1 = lat1 * pi / 180;
          phi2 = lat2 * pi / 180;
          dphi = (lat2 - lat1) * pi / 180;
          dlambda = (lon2 - lon1) * pi / 180;
          a = sin (dphi / 2) * sin (dphi / 2) +
              cos phi1 * cos phi2 * sin (dlambda / 2) * sin (dlambda / 2);
          c = 2 * atan2 (sqrt a) (sqrt (1 - a))
      in R * c)"

section \<open>Telemetry session (CockpitManager)\<close>

text \<open>
  The fields of \<^verbatim>\<open>CockpitManager\<close> that the ingestion handlers read or write.
  A message is \<^verbatim>\<open>{id, text, type, timestamp}\<close>; its \<^verbatim>\<open>id\<close> and \<^verbatim>\<open>timestamp\<close>
  are read from the clock and the random generator when it is created and are
  left out, \<open>msg_text\<close> and \<open>msg_type\<close> are its \<^verbatim>\<open>text\<close> and \<^verbatim>\<open>type\<close>. \<^verbatim>\<open>lastStates\<close> and \<^verbatim>\<open>stuckPositions\<close> are \<^verbatim>\<open>Map\<close>s keyed by device
  id; \<^verbatim>\<open>lastPosition\<close> is unset until the first position arrives. Writes to the
  page, to the charts and to the map view are not part of this state.
\<close>

record device =
  device_id :: nat
  name :: string

record message =
  msg_text :: string
  msg_type :: string

record position = timed +
  latitude :: real
  longitude :: real

record cockpitConfig =
  stuckThreshold :: real
  batteryLowThreshold :: real
  liveRange :: real
  historyRange :: real

record cockpit =
  currentDevice :: "device option"
  messages :: "message list"
  lastStates :: "nat \<Rightarrow> int option"
  stuckPositions :: "nat \<Rightarrow> position option"
  lastPosition :: "position option"
  config :: cockpitConfig

text \<open>The payloads of the three measurement events.\<close>

record measurement =
  LawnmowerId :: nat

record batteryMeasurement = measurement +
  BatteryLevel :: real

record gpsMeasurement = measurement +
  Latitude :: real
  Longitude :: real

record stateMeasurement = measurement +
  State :: int

text \<open>The constructor.\<close>

definition newCockpit :: cockpit where
  "newCockpit =
     \<lparr>currentDevice = None, messages = [], lastStates = Map.empty,
      stuckPositions = Map.empty, lastPosition = None,
      config = \<lparr>stuckThreshold = 90, batteryLowThreshold = 10,
                liveRange = 5 * 60, historyRange = 60 * 60\<rparr>\<rparr>"

text \<open>
  \<^verbatim>\<open>setDevice\<close>: the assignments it makes before it subscribes and loads the
  initial data (which is asynchronous and not modelled).
\<close>

definition setDevice :: "cockpit \<Rightarrow> device option \<Rightarrow> cockpit" where
  "setDevice s dev =
     s\<lparr>currentDevice := dev, messages := [], lastStates := Map.empty,
       stuckPositions := Map.empty\<rparr>"

definition addMessage :: "cockpit \<Rightarrow> string \<Rightarrow> string \<Rightarrow> cockpit" where
  "addMessage s txt ty =
     (let unshifted = \<lparr>msg_text = txt, msg_type = ty\<rparr> # messages s
      in s\<lparr>messages := (if 1000 < length unshifted then take 1000 unshifted else unshifted)\<rparr>)"

definition updateDeviceState :: "cockpit \<Rightarrow> int \<Rightarrow> cockpit" where
  "updateDeviceState s stateId =
     (if stateId = 5 then addMessage s ''Device entered error state'' ''error'' else s)"

definition updateGpsPosition :: "cockpit \<Rightarrow> real \<Rightarrow> real \<Rightarrow> int \<Rightarrow> cockpit" where
  "updateGpsPosition s lat lon ts =
     s\<lparr>lastPosition := Some \<lparr>timestamp = ts, latitude = lat, longitude = lon\<rparr>\<rparr>"

definition checkBatteryWarnings :: "cockpit \<Rightarrow> real \<Rightarrow> cockpit" where
  "checkBatteryWarnings s lvl =
     (if lvl = 0 then addMessage s ''Battery empty - device shutting down'' ''error''
      else if lvl < batteryLowThreshold (config s)
        then addMessage s (''Battery low: '' @ showInt (Math_round lvl) @ ''%'') ''warning''
      else s)"

text \<open>\<open>now\<close> is the value of \<^verbatim>\<open>Date.now()\<close> read by the call.\<close>

definition checkStuckDetection :: "cockpit \<Rightarrow> real \<Rightarrow> real \<Rightarrow> int \<Rightarrow> cockpit" where
  "checkStuckDetection s lat lon now =
     (case currentDevice s of
        None \<Rightarrow> s
      | Some dev \<Rightarrow>
          let deviceId = device_id dev;
              currentState = lastStates s deviceId;
              here = \<lparr>timestamp = now, latitude = lat, longitude = lon\<rparr>
          in
            if currentState \<noteq> Some 2 \<and> currentState \<noteq> Some 3
            then s\<lparr>stuckPositions := (stuckPositions s)(deviceId := None)\<rparr>
            else
              (case stuckPositions s deviceId of
                 None \<Rightarrow> s\<lparr>stuckPositions := (stuckPositions s)(deviceId \<mapsto> here)\<rparr>
               | Some stuckData \<Rightarrow>
                   let distance = calculateDistance (latitude stuckData) (longitude stuckData)
                                    lat lon
                   in
                     if 1 < distance
                     then s\<lparr>stuckPositions := (stuckPositions s)(deviceId \<mapsto> here)\<rparr>
                     else
                       let stuckTime = real_of_int (now - timestamp stuckData) / 1000 in
                       if stuckThreshold (config s) < stuckTime
                       then
                         (let s1 = addMessage s
                                     (''Device appears to be stuck ('' @
                                      showInt (Math_round stuckTime) @ ''s without movement)'')
                                     ''error''
                          in s1\<lparr>stuckPositions := (stuckPositions s1)(deviceId \<mapsto> here)\<rparr>)
                       else s))"

text \<open>The arrow of the message is U+2192, written here as its UTF-8 bytes.\<close>

definition generateStateChangeMessage :: "cockpit \<Rightarrow> int \<Rightarrow> int \<Rightarrow> cockpit" where
  "generateStateChangeMessage s previousState newState =
     (let s1 = addMessage s
                 (''State changed: '' @ getStateName previousState @
                  [CHR '' '', CHR 0xE2, CHR 0x86, CHR 0x92, CHR '' ''] @
                  getStateName newState)
                 ''info''
      in if previousState = 4 \<and> newState = 2
         then addMessage s1 ''Device resumed operation'' ''info''
         else s1)"

text \<open>
  The three handlers. Each returns at once when no device is bound or the event
  is for another device. \<^verbatim>\<open>updateBatteryLevel\<close> writes only to the page and the
  chart, so \<open>handleBatteryUpdate\<close> goes on to \<open>checkBatteryWarnings\<close>. For a GPS
  event \<open>ts\<close> is the \<^verbatim>\<open>new Date()\<close> of the handler and \<open>now\<close> the
  \<^verbatim>\<open>Date.now()\<close> of \<open>checkStuckDetection\<close>.
\<close>

definition handleBatteryUpdate :: "cockpit \<Rightarrow> batteryMeasurement \<Rightarrow> cockpit" where
  "handleBatteryUpdate s ev =
     (case currentDevice s of
        None \<Rightarrow> s
      | Some dev \<Rightarrow>
          if LawnmowerId ev \<noteq> device_id dev then s
          else checkBatteryWarnings s (BatteryLevel ev))"

definition handleGpsUpdate :: "cockpit \<Rightarrow> gpsMeasurement \<Rightarrow> int \<Rightarrow> int \<Rightarrow> cockpit" where
  "handleGpsUpdate s ev ts now =
     (case currentDevice s of
        None \<Rightarrow> s
      | Some dev \<Rightarrow>
          if LawnmowerId ev \<noteq> device_id dev then s
          else checkStuckDetection (updateGpsPosition s (Latitude ev) (Longitude ev) ts)
                 (Latitude ev) (Longitude ev) now)"

definition handleStateUpdate :: "cockpit \<Rightarrow> stateMeasurement \<Rightarrow> cockpit" where
  "handleStateUpdate s ev =
     (case currentDevice s of
        None \<Rightarrow> s
      | Some dev \<Rightarrow>
          if LawnmowerId ev \<noteq> device_id dev then s
          else
            let previousState = lastStates s (device_id dev);
                s1 = updateDeviceState s (State ev);
                s2 = (case previousState of
                        None \<Rightarrow> s1
                      | Some p \<Rightarrow>
                          if p \<noteq> State ev then generateStateChangeMessage s1 p (State ev)
                          else s1)
            in s2\<lparr>lastStates := (lastStates s2)(device_id dev \<mapsto> State ev)\<rparr>)"

text \<open>A stream of GPS events, each with its two clock readings.\<close>

fun handleGpsUpdates :: "cockpit \<Rightarrow> (gpsMeasurement \<times> int \<times> int) list \<Rightarrow> cockpit" where
  "handleGpsUpdates s [] = s"
| "handleGpsUpdates s ((ev, ts, now) # evs) = handleGpsUpdates (handleGpsUpdate s ev ts now) evs"

section \<open>Vocabulary for the properties of the stuck detector\<close>

text \<open>
  A GPS event of a stream is the payload with the two clock readings of its
  handling (see \<open>handleGpsUpdates\<close>). \<open>gpsClock\<close> is the \<^verbatim>\<open>Date.now()\<close>
  reading, \<open>gpsAnchor\<close> the entry \<open>checkStuckDetection\<close> stores for the event,
  \<open>gpsDistance\<close> the distance between the positions of two events, and
  \<open>stuckMessage\<close> the message \<open>checkStuckDetection\<close> adds for a given
  \<^verbatim>\<open>stuckTime\<close>.
\<close>

definition gpsClock :: "gpsMeasurement \<times> int \<times> int \<Rightarrow> int" where
  "gpsClock e = snd (snd e)"

definition gpsAnchor :: "gpsMeasurement \<times> int \<times> int \<Rightarrow> position" where
  "gpsAnchor e =
     \<lparr>timestamp = gpsClock e, latitude = Latitude (fst e), longitude = Longitude (fst e)\<rparr>"

definition gpsDistance :: "gpsMeasurement \<times> int \<times> int \<Rightarrow> gpsMeasurement \<times> int \<times> int \<Rightarrow> real" where
  "gpsDistance e e' =
     calculateDistance (Latitude (fst e)) (Longitude (fst e)) (Latitude (fst e')) (Longitude (fst e'))"

definition stuckMessage :: "real \<Rightarrow> message" where
  "stuckMessage stuckTime =
     \<lparr>msg_text = ''Device appears to be stuck ('' @ showInt (Math_round stuckTime) @
                  ''s without movement)'',
      msg_type = ''error''\<rparr>"

text \<open>
  A session in state Mowing with no anchor yet, and five samples within a few
  decimetres of each other whose clock readings span 91 seconds.
\<close>

definition mowingSession :: cockpit where
  "mowingSession =
     handleStateUpdate (setDevice newCockpit (Some \<lparr>device_id = 1, name = ''mower''\<rparr>))
       \<lparr>LawnmowerId = 1, State = 2\<rparr>"

definition motionlessSamples :: "(gpsMeasurement \<times> int \<times> int) list" where
  "motionlessSamples =
     [(\<lparr>LawnmowerId = 1, Latitude = 47, Longitude = 8\<rparr>, 0, 0),
      (\<lparr>LawnmowerId = 1, Latitude = 47000001 / 1000000, Longitude = 8\<rparr>, 45000, 45000),
      (\<lparr>LawnmowerId = 1, Latitude = 47000002 / 1000000, Longitude = 8\<rparr>, 90500, 90500),
      (\<lparr>LawnmowerId = 1, Latitude = 47000001 / 1000000, Longitude = 8\<rparr>, 90800, 90800),
      (\<lparr>LawnmowerId = 1, Latitude = 47, Longitude = 8\<rparr>, 91000, 91000)]"

section \<open>Status aggregator (StatusManager)\<close>

text \<open>
  An entry of the state history has a \<^verbatim>\<open>timestamp\<close> (a valid date, in
  milliseconds) and a \<^verbatim>\<open>state\<close>. \<^verbatim>\<open>statusNames\<close> and \<^verbatim>\<open>statusColors\<close> are the
  tables set up by \<^verbatim>\<open>initialize\<close>; a missing key reads as \<^verbatim>\<open>undefined\<close>.
\<close>

record historyItem = timed +
  state :: int

definition statusColors :: "int \<Rightarrow> string option" where
  "statusColors =
     [0 \<mapsto> ''#39FF14'', 1 \<mapsto> ''#228B22'', 2 \<mapsto> ''#7F8F3D'',
      3 \<mapsto> ''#FF7979'', 4 \<mapsto> ''#F43333'', 5 \<mapsto> ''#B22222'']"

definition statusNames :: "int \<Rightarrow> string option" where
  "statusNames =
     [0 \<mapsto> ''Station Charging'', 1 \<mapsto> ''Charging Completed'', 2 \<mapsto> ''Mowing'',
      3 \<mapsto> ''Returning to Station'', 4 \<mapsto> ''Paused'', 5 \<mapsto> ''Error'']"

record stateInfo =
  stateId :: int
  stateName :: "string option"
  duration :: real

record timelineItem = stateInfo +
  startTime :: int
  endTime :: int

record statusItem = stateInfo +
  percentage :: jsnum
  color :: "string option"

record statusResult =
  statusData :: "statusItem list"
  timeline :: "timelineItem list"

text \<open>
  \<^verbatim>\<open>stateDurations\<close> is a plain object keyed by state id: its properties in
  insertion order. \<^verbatim>\<open>Object.entries\<close> lists the keys that are array indices in
  ascending order first, then the other keys in insertion order.
\<close>

definition setProp :: "(int \<times> real) list \<Rightarrow> int \<Rightarrow> real \<Rightarrow> (int \<times> real) list" where
  "setProp obj k v =
     (if k \<in> fst ` set obj then map (\<lambda>(k', v'). if k' = k then (k', v) else (k', v')) obj
      else obj @ [(k, v)])"

definition addDuration :: "(int \<times> real) list \<Rightarrow> int \<Rightarrow> real \<Rightarrow> (int \<times> real) list" where
  "addDuration stateDurations k d =
     (let initialised = (case map_of stateDurations k of
                           None \<Rightarrow> setProp stateDurations k 0
                         | Some v \<Rightarrow> if v = 0 then setProp stateDurations k 0
                                     else stateDurations)
      in case map_of initialised k of
           None \<Rightarrow> initialised
         | Some v \<Rightarrow> setProp initialised k (v + d))"

definition isArrayIndex :: "int \<Rightarrow> bool" where
  "isArrayIndex k \<longleftrightarrow> 0 \<le> k \<and> k \<le> 4294967294"

definition Object_entries :: "(int \<times> real) list \<Rightarrow> (int \<times> real) list" where
  "Object_entries obj =
     sort_key fst (filter (\<lambda>kv. isArrayIndex (fst kv)) obj) @
     filter (\<lambda>kv. \<not> isArrayIndex (fst kv)) obj"

text \<open>The loop of \<^verbatim>\<open>processStatusData\<close> over the sorted history.\<close>

fun statusLoop ::
  "historyItem list \<Rightarrow> int \<Rightarrow> (int \<times> real) list \<Rightarrow> timelineItem list \<Rightarrow>
   (int \<times> real) list \<times> timelineItem list" where
  "statusLoop [] to stateDurations tline = (stateDurations, tline)"
| "statusLoop (current # rest) to stateDurations tline =
     (let currentTime = timestamp current;
          endTime = (case rest of [] \<Rightarrow> to | nxt # _ \<Rightarrow> timestamp nxt);
          dur = real_of_int (endTime - currentTime) / 1000
      in statusLoop rest to (addDuration stateDurations (state current) dur)
           (tline @ [\<lparr>stateId = state current, stateName = statusNames (state current),
                    duration = dur, startTime = currentTime, endTime = endTime\<rparr>]))"

definition processStatusData :: "historyItem list \<Rightarrow> int \<Rightarrow> statusResult" where
  "processStatusData history to =
     (let sortedHistory = sort_key timestamp history;
          (stateDurations, tline) = statusLoop sortedHistory to [] [];
          total = sum_list (map snd (Object_entries stateDurations))
      in \<lparr>statusData =
            map (\<lambda>(k, d). \<lparr>stateId = k, stateName = statusNames k, duration = d,
                            percentage = js_mul (js_div (Fin d) (Fin total)) (Fin 100),
                            color = statusColors k\<rparr>)
                (Object_entries stateDurations),
          timeline = tline\<rparr>)"

fun groupLoop :: "timelineItem \<Rightarrow> timelineItem list \<Rightarrow> timelineItem list \<Rightarrow> timelineItem list" where
  "groupLoop currentGroup grouped [] = grouped @ [currentGroup]"
| "groupLoop currentGroup grouped (current # rest) =
     (if stateId current = stateId currentGroup \<and>
         \<bar>startTime current - endTime currentGroup\<bar> < 60000
      then groupLoop (currentGroup\<lparr>endTime := endTime current,
                                    duration := duration currentGroup + duration current\<rparr>)
             grouped rest
      else groupLoop current (grouped @ [currentGroup]) rest)"

definition groupConsecutiveStates :: "timelineItem list \<Rightarrow> timelineItem list" where
  "groupConsecutiveStates tline =
     (case tline of [] \<Rightarrow> [] | first # rest \<Rightarrow> groupLoop first [] rest)"

section \<open>Properties of the state taxonomy\<close>

lemma state_id_cases:
  fixes i :: int
  assumes "0 \<le> i" "i \<le> 5"
  shows "i = 0 \<or> i = 1 \<or> i = 2 \<or> i = 3 \<or> i = 4 \<or> i = 5"
  using assms by arith

lemma getStateName_values:
  "getStateName 0 = ''Station Charging''"
  "getStateName 1 = ''Station Charging Completed''"
  "getStateName 2 = ''Mowing''"
  "getStateName 3 = ''Returning to Station''"
  "getStateName 4 = ''Paused''"
  "getStateName 5 = ''Error''"
  by (simp_all add: getStateName_def stateNames_def orElse_def)

lemma getStateClass_values:
  "getStateClass 0 = ''status-charging''"
  "getStateClass 1 = ''status-charging''"
  "getStateClass 2 = ''status-mowing''"
  "getStateClass 3 = ''status-returning''"
  "getStateClass 4 = ''status-paused''"
  "getStateClass 5 = ''status-error''"
  by (simp_all add: getStateClass_def stateClasses_def orElse_def)

lemma taxonomy_fallback:
  assumes "i < 0 \<or> 5 < i"
  shows "getStateName i = ''Unknown''" "getStateClass i = []"
  using assms
  by (auto simp: getStateName_def getStateClass_def stateNames_def stateClasses_def orElse_def)

text \<open>
  C1 (counterexample). The claim asks that no two of the six states share a style
  class. States 0 (Station Charging) and 1 (Station Charging Completed) are two
  different states with the same style class \<^verbatim>\<open>status-charging\<close>.
\<close>

theorem C1_style_class_shared:
  "(0::int) \<noteq> 1 \<and> getStateClass 0 = getStateClass 1"
  by (simp add: getStateClass_values)

text \<open>
  C1 (amended). For every state id in 0..5 the display name and the style class
  are non-empty; the six display names are pairwise distinct; two different
  states share a style class exactly when they are the two charging states 0
  and 1; for every integer outside 0..5 the lookups return \<^verbatim>\<open>Unknown\<close> and the
  empty string. Both lookups are total functions, so neither can fail.
\<close>

theorem C1_state_taxonomy:
  "(0 \<le> i \<and> i \<le> 5 \<longrightarrow> getStateName i \<noteq> [] \<and> getStateClass i \<noteq> []) \<and>
   (0 \<le> i \<and> i \<le> 5 \<and> 0 \<le> j \<and> j \<le> 5 \<and> i \<noteq> j \<longrightarrow>
      getStateName i \<noteq> getStateName j \<and>
      (getStateClass i = getStateClass j \<longleftrightarrow> {i, j} = {0, 1})) \<and>
   (i < 0 \<or> 5 < i \<longrightarrow> getStateName i = ''Unknown'' \<and> getStateClass i = [])"
proof (intro conjI impI)
  assume r: "0 \<le> i \<and> i \<le> 5"
  then have c: "i = 0 \<or> i = 1 \<or> i = 2 \<or> i = 3 \<or> i = 4 \<or> i = 5"
    by (simp add: state_id_cases)
  from c show "getStateName i \<noteq> []"
    by (auto simp: getStateName_values)
  from c show "getStateClass i \<noteq> []"
    by (auto simp: getStateClass_values)
next
  assume r: "0 \<le> i \<and> i \<le> 5 \<and> 0 \<le> j \<and> j \<le> 5 \<and> i \<noteq> j"
  then have ci: "i = 0 \<or> i = 1 \<or> i = 2 \<or> i = 3 \<or> i = 4 \<or> i = 5"
    and cj: "j = 0 \<or> j = 1 \<or> j = 2 \<or> j = 3 \<or> j = 4 \<or> j = 5"
    and ne: "i \<noteq> j"
    by (simp_all add: state_id_cases)
  from ci cj ne show "getStateName i \<noteq> getStateName j"
    by (elim disjE) (simp_all add: getStateName_values)
  from ci cj ne show "getStateClass i = getStateClass j \<longleftrightarrow> {i, j} = {0, 1}"
    by (elim disjE) (simp_all add: getStateClass_values doubleton_eq_iff)
next
  assume "i < 0 \<or> 5 < i"
  then show "getStateName i = ''Unknown''" and "getStateClass i = []"
    by (simp_all add: taxonomy_fallback)
qed

theorem C1_state_taxonomy_witness:
  "getStateName 2 \<noteq> [] \<and> getStateClass 2 \<noteq> [] \<and>
   getStateName 2 \<noteq> getStateName 3 \<and> getStateClass 2 \<noteq> getStateClass 3 \<and>
   getStateName 7 = ''Unknown'' \<and> getStateClass 7 = []"
  using C1_state_taxonomy [of 2 3] C1_state_taxonomy [of 7 0]
  by (simp add: doubleton_eq_iff)

section \<open>Properties of the trend predictor\<close>

text \<open>
  What the predictor returns for a window whose first and last timestamps are
  equal: a prediction exactly when the level rose and the state is Station
  Charging, or the level fell and the state is one of 2 to 5.
\<close>

lemma zero_span_prediction:
  assumes "2 \<le> length batteryData"
    and "timestamp (last (drop (length batteryData - 10) batteryData)) =
         timestamp (hd (drop (length batteryData - 10) batteryData))"
  shows "calculateBatteryPrediction batteryData currentState \<noteq> None \<longleftrightarrow>
           (currentState = Some 0 \<and>
              level (hd (drop (length batteryData - 10) batteryData)) <
              level (last (drop (length batteryData - 10) batteryData))) \<or>
           (currentState \<in> {Some 2, Some 3, Some 4, Some 5} \<and>
              level (last (drop (length batteryData - 10) batteryData)) <
              level (hd (drop (length batteryData - 10) batteryData)))"
proof -
  have len: "\<not> length batteryData < 2" "\<not> length (drop (length batteryData - 10) batteryData) < 2"
    using assms(1) by auto
  show ?thesis
    unfolding calculateBatteryPrediction_def Let_def
    using len assms(2) by (auto split: if_splits)
qed

text \<open>
  C2 (the code at the failing input). Two samples with the same timestamp and a
  rising level, current state Station Charging: the time span is zero, the rate
  is \<^verbatim>\<open>10 / 0 = Infinity\<close>, which is greater than zero, the time to full is
  \<^verbatim>\<open>40 / Infinity = 0\<close>, and a prediction is returned instead of \<^verbatim>\<open>null\<close>.
\<close>

theorem C2_zero_span_prediction:
  "calculateBatteryPrediction
     [\<lparr>timestamp = 0, level = 50\<rparr>, \<lparr>timestamp = 0, level = 60\<rparr>] (Some 0) =
   Some \<lparr>data = [\<lparr>point_x = Date 0, point_y = 60\<rparr>, \<lparr>point_x = Date 0, point_y = 100\<rparr>],
         label = ''Charging complete: 0 min''\<rparr>"
  by (simp add: calculateBatteryPrediction_def newDate_def Math_round_def showInt_def
      showNat.simps)

text \<open>
  C6. Samples \<open>(t, 50)\<close> and \<open>(t + 10 min, 60)\<close> with current state Station
  Charging give a prediction from \<open>(t + 10 min, 60)\<close> to
  \<open>(t + 10 min + 40 min, 100)\<close>, labelled with 40 minutes. The hypothesis says
  that the predicted time is a date JavaScript can represent, as the timestamps
  of the samples are.
\<close>

theorem C6_charging_prediction:
  assumes "- 8640000000000000 \<le> t" "t + 3000000 \<le> 8640000000000000"
  shows "calculateBatteryPrediction
           [\<lparr>timestamp = t, level = 50\<rparr>, \<lparr>timestamp = t + 600000, level = 60\<rparr>] (Some 0) =
         Some \<lparr>data = [\<lparr>point_x = Date (t + 600000), point_y = 60\<rparr>,
                        \<lparr>point_x = Date (t + 600000 + 2400000), point_y = 100\<rparr>],
               label = ''Charging complete: 40 min''\<rparr>"
proof -
  have rate: "js_div (Fin (60 - 50)) (Fin (of_int (t + 600000 - t))) = Fin (1 / 60000)"
    by simp
  have full: "newDate (Fin (of_int (t + 600000) + 40 * 60000)) = Date (t + 3000000)"
  proof -
    have e: "(of_int (t + 600000) + 40 * 60000 :: real) = of_int (t + 3000000)"
      by simp
    have b: "\<not> 8640000000000000 < \<bar>of_int (t + 3000000) :: real\<bar>"
      using assms by (simp add: abs_le_iff not_less)
    show ?thesis
      unfolding e newDate_def using b by simp
  qed
  have lab: "roundedToString (Fin 40) = ''40''"
    by (simp add: Math_round_def showInt_def showNat.simps)
  show ?thesis
    using rate full lab by (simp add: calculateBatteryPrediction_def)
qed

theorem C6_charging_prediction_witness:
  "- 8640000000000000 \<le> (0::int) \<and> (0::int) + 3000000 \<le> 8640000000000000 \<and>
   calculateBatteryPrediction
     [\<lparr>timestamp = 0, level = 50\<rparr>, \<lparr>timestamp = 0 + 600000, level = 60\<rparr>] (Some 0) =
   Some \<lparr>data = [\<lparr>point_x = Date (0 + 600000), point_y = 60\<rparr>,
                  \<lparr>point_x = Date (0 + 600000 + 2400000), point_y = 100\<rparr>],
         label = ''Charging complete: 40 min''\<rparr>"
  using C6_charging_prediction [of 0] by simp


section \<open>Properties of the message log\<close>

lemma addMessage_messages:
  "messages (addMessage s txt ty) = \<lparr>msg_text = txt, msg_type = ty\<rparr> # take 999 (messages s)"
  by (simp add: addMessage_def Let_def)

lemma addMessage_other [simp]:
  "currentDevice (addMessage s txt ty) = currentDevice s"
  "lastStates (addMessage s txt ty) = lastStates s"
  "stuckPositions (addMessage s txt ty) = stuckPositions s"
  "lastPosition (addMessage s txt ty) = lastPosition s"
  "config (addMessage s txt ty) = config s"
  by (simp_all add: addMessage_def Let_def)

text \<open>
  C8. After \<open>addMessage\<close> the log is the new message followed by the first 999
  of the old ones, so it is newest first and never longer than 1000 entries,
  whatever its length was; an insertion into a log of exactly 1000 entries
  keeps all but the last (oldest) of them behind the new message.
\<close>

theorem C8_message_log_bound:
  "messages (addMessage s txt ty) = \<lparr>msg_text = txt, msg_type = ty\<rparr> # take 999 (messages s) \<and>
   length (messages (addMessage s txt ty)) \<le> 1000 \<and>
   (length (messages s) < 1000 \<longrightarrow>
      messages (addMessage s txt ty) = \<lparr>msg_text = txt, msg_type = ty\<rparr> # messages s) \<and>
   (length (messages s) = 1000 \<longrightarrow>
      messages (addMessage s txt ty) = \<lparr>msg_text = txt, msg_type = ty\<rparr> # butlast (messages s))"
  by (simp add: addMessage_messages butlast_conv_take)

theorem C8_message_log_bound_witness:
  "length (messages (newCockpit\<lparr>messages := replicate 1000 \<lparr>msg_text = ''old'', msg_type = ''info''\<rparr>\<rparr>)) = 1000 \<and>
   messages (addMessage (newCockpit\<lparr>messages := replicate 1000 \<lparr>msg_text = ''old'', msg_type = ''info''\<rparr>\<rparr>) ''new'' ''error'') =
     \<lparr>msg_text = ''new'', msg_type = ''error''\<rparr> #
       butlast (messages (newCockpit\<lparr>messages := replicate 1000 \<lparr>msg_text = ''old'', msg_type = ''info''\<rparr>\<rparr>))"
proof -
  let ?s = "newCockpit\<lparr>messages := replicate 1000 \<lparr>msg_text = ''old'', msg_type = ''info''\<rparr>\<rparr>"
  have h: "length (messages ?s) = 1000"
    by simp
  with C8_message_log_bound [of ?s "''new''" "''error''"] show ?thesis
    by blast
qed

section \<open>Properties of the ingestion handlers\<close>

text \<open>
  C7. A battery update that is processed (a device is bound and the event is for
  it) prepends exactly one message of type \<^verbatim>\<open>error\<close> when the level is 0;
  otherwise exactly one message of type \<^verbatim>\<open>warning\<close> when the level is below
  \<open>batteryLowThreshold\<close>; otherwise it leaves the log as it is. So no update
  adds both.
\<close>

theorem C7_battery_warnings:
  assumes "currentDevice s = Some dev" "LawnmowerId ev = device_id dev"
  shows "messages (handleBatteryUpdate s ev) =
           (if BatteryLevel ev = 0
            then \<lparr>msg_text = ''Battery empty - device shutting down'', msg_type = ''error''\<rparr> #
                   take 999 (messages s)
            else if BatteryLevel ev < batteryLowThreshold (config s)
            then \<lparr>msg_text = ''Battery low: '' @ showInt (Math_round (BatteryLevel ev)) @ ''%'',
                   msg_type = ''warning''\<rparr> # take 999 (messages s)
            else messages s)"
  using assms
  by (simp add: handleBatteryUpdate_def checkBatteryWarnings_def addMessage_messages)

theorem C7_battery_warnings_witness:
  "currentDevice (setDevice newCockpit (Some \<lparr>device_id = 1, name = ''mower''\<rparr>)) =
     Some \<lparr>device_id = 1, name = ''mower''\<rparr> \<and>
   LawnmowerId \<lparr>LawnmowerId = 1, BatteryLevel = 5\<rparr> = device_id \<lparr>device_id = 1, name = ''mower''\<rparr> \<and>
   messages (handleBatteryUpdate (setDevice newCockpit (Some \<lparr>device_id = 1, name = ''mower''\<rparr>))
               \<lparr>LawnmowerId = 1, BatteryLevel = 5\<rparr>) =
     [\<lparr>msg_text = ''Battery low: 5%'', msg_type = ''warning''\<rparr>] \<and>
   messages (handleBatteryUpdate (setDevice newCockpit (Some \<lparr>device_id = 1, name = ''mower''\<rparr>))
               \<lparr>LawnmowerId = 1, BatteryLevel = 0\<rparr>) =
     [\<lparr>msg_text = ''Battery empty - device shutting down'', msg_type = ''error''\<rparr>] \<and>
   messages (handleBatteryUpdate (setDevice newCockpit (Some \<lparr>device_id = 1, name = ''mower''\<rparr>))
               \<lparr>LawnmowerId = 1, BatteryLevel = 80\<rparr>) = []"
  using C7_battery_warnings [of "setDevice newCockpit (Some \<lparr>device_id = 1, name = ''mower''\<rparr>)"
      "\<lparr>device_id = 1, name = ''mower''\<rparr>" "\<lparr>LawnmowerId = 1, BatteryLevel = 5\<rparr>"]
    C7_battery_warnings [of "setDevice newCockpit (Some \<lparr>device_id = 1, name = ''mower''\<rparr>)"
      "\<lparr>device_id = 1, name = ''mower''\<rparr>" "\<lparr>LawnmowerId = 1, BatteryLevel = 0\<rparr>"]
    C7_battery_warnings [of "setDevice newCockpit (Some \<lparr>device_id = 1, name = ''mower''\<rparr>)"
      "\<lparr>device_id = 1, name = ''mower''\<rparr>" "\<lparr>LawnmowerId = 1, BatteryLevel = 80\<rparr>"]
  by (simp add: setDevice_def newCockpit_def Math_round_def showInt_def showNat.simps)

text \<open>
  C9. When no device is bound, or the bound device has another id than the
  event, each of the three handlers returns the session unchanged: all fields,
  among them \<open>messages\<close>, \<open>lastStates\<close>, \<open>stuckPositions\<close> and \<open>lastPosition\<close>,
  are as before, so no message or alert has been added.
\<close>

theorem C9_other_device_ignored:
  assumes "currentDevice s = None \<or> (\<exists>dev. currentDevice s = Some dev \<and> i \<noteq> device_id dev)"
  shows "(LawnmowerId b = i \<longrightarrow> handleBatteryUpdate s b = s) \<and>
         (LawnmowerId g = i \<longrightarrow> handleGpsUpdate s g ts now = s) \<and>
         (LawnmowerId st = i \<longrightarrow> handleStateUpdate s st = s)"
  using assms
  by (auto simp: handleBatteryUpdate_def handleGpsUpdate_def handleStateUpdate_def)


theorem C9_other_device_ignored_witness:
  "(currentDevice newCockpit = None \<or>
      (\<exists>dev. currentDevice newCockpit = Some dev \<and> 1 \<noteq> device_id dev)) \<and>
   handleBatteryUpdate newCockpit \<lparr>LawnmowerId = 1, BatteryLevel = 0\<rparr> = newCockpit \<and>
   handleGpsUpdate newCockpit \<lparr>LawnmowerId = 1, Latitude = 47, Longitude = 8\<rparr> 5 6 = newCockpit \<and>
   handleStateUpdate newCockpit \<lparr>LawnmowerId = 1, State = 5\<rparr> = newCockpit \<and>
   (currentDevice (setDevice newCockpit (Some \<lparr>device_id = 2, name = ''mower''\<rparr>)) = None \<or>
      (\<exists>dev. currentDevice (setDevice newCockpit (Some \<lparr>device_id = 2, name = ''mower''\<rparr>)) = Some dev \<and>
             1 \<noteq> device_id dev)) \<and>
   handleBatteryUpdate (setDevice newCockpit (Some \<lparr>device_id = 2, name = ''mower''\<rparr>))
     \<lparr>LawnmowerId = 1, BatteryLevel = 0\<rparr> =
     setDevice newCockpit (Some \<lparr>device_id = 2, name = ''mower''\<rparr>) \<and>
   handleGpsUpdate (setDevice newCockpit (Some \<lparr>device_id = 2, name = ''mower''\<rparr>))
     \<lparr>LawnmowerId = 1, Latitude = 47, Longitude = 8\<rparr> 5 6 =
     setDevice newCockpit (Some \<lparr>device_id = 2, name = ''mower''\<rparr>) \<and>
   handleStateUpdate (setDevice newCockpit (Some \<lparr>device_id = 2, name = ''mower''\<rparr>))
     \<lparr>LawnmowerId = 1, State = 5\<rparr> =
     setDevice newCockpit (Some \<lparr>device_id = 2, name = ''mower''\<rparr>)"
proof -
  let ?s = "setDevice newCockpit (Some \<lparr>device_id = 2, name = ''mower''\<rparr>)"
  let ?b = "\<lparr>LawnmowerId = 1, BatteryLevel = 0\<rparr>"
  let ?g = "\<lparr>LawnmowerId = 1, Latitude = 47, Longitude = 8\<rparr>"
  let ?st = "\<lparr>LawnmowerId = 1, State = 5\<rparr>"
  have h0: "currentDevice newCockpit = None \<or>
      (\<exists>dev. currentDevice newCockpit = Some dev \<and> 1 \<noteq> device_id dev)"
    by (simp add: newCockpit_def)
  have h1: "currentDevice ?s = None \<or> (\<exists>dev. currentDevice ?s = Some dev \<and> 1 \<noteq> device_id dev)"
    by (simp add: setDevice_def)
  have i: "LawnmowerId ?b = 1" "LawnmowerId ?g = 1" "LawnmowerId ?st = 1"
    by simp_all
  from C9_other_device_ignored [OF h0, of ?b ?g 5 6 ?st]
       C9_other_device_ignored [OF h1, of ?b ?g 5 6 ?st] h0 h1 i
  show ?thesis
    by blast
qed

lemma addMessage_twice:
  "messages (addMessage (addMessage s t1 y1) t2 y2) =
     \<lparr>msg_text = t2, msg_type = y2\<rparr> # \<lparr>msg_text = t1, msg_type = y1\<rparr> # take 998 (messages s)"
  by (simp add: addMessage_messages take_Cons')

text \<open>
  C10. A processed state update with state 5 (Error) always puts the message
  \<^verbatim>\<open>Device entered error state\<close> of type \<^verbatim>\<open>error\<close> into the log: on the first
  observation and when the previous state was already Error it is the only new
  message; after another previous state it is followed (one place nearer the
  head) by the \<^verbatim>\<open>State changed\<close> message.
\<close>

theorem C10_error_state_message:
  assumes "currentDevice s = Some dev" "LawnmowerId ev = device_id dev" "State ev = 5"
  shows "messages (handleStateUpdate s ev) =
           (case lastStates s (device_id dev) of
              None \<Rightarrow> \<lparr>msg_text = ''Device entered error state'', msg_type = ''error''\<rparr> #
                        take 999 (messages s)
            | Some p \<Rightarrow>
                if p = 5
                then \<lparr>msg_text = ''Device entered error state'', msg_type = ''error''\<rparr> #
                       take 999 (messages s)
                else \<lparr>msg_text = ''State changed: '' @ getStateName p @
                                  [CHR '' '', CHR 0xE2, CHR 0x86, CHR 0x92, CHR '' ''] @ ''Error'',
                       msg_type = ''info''\<rparr> #
                     \<lparr>msg_text = ''Device entered error state'', msg_type = ''error''\<rparr> #
                       take 998 (messages s)) \<and>
         \<lparr>msg_text = ''Device entered error state'', msg_type = ''error''\<rparr> \<in>
           set (messages (handleStateUpdate s ev))"
  using assms
  by (simp add: handleStateUpdate_def updateDeviceState_def generateStateChangeMessage_def
      addMessage_messages addMessage_twice getStateName_values Let_def split: option.splits)


theorem C10_error_state_message_witness:
  "currentDevice (handleStateUpdate (setDevice newCockpit (Some \<lparr>device_id = 1, name = ''mower''\<rparr>))
                    \<lparr>LawnmowerId = 1, State = 5\<rparr>) =
     Some \<lparr>device_id = 1, name = ''mower''\<rparr> \<and>
   LawnmowerId \<lparr>LawnmowerId = 1, State = 5\<rparr> = device_id \<lparr>device_id = 1, name = ''mower''\<rparr> \<and>
   State \<lparr>LawnmowerId = 1, State = 5\<rparr> = 5 \<and>
   messages (handleStateUpdate
               (handleStateUpdate (setDevice newCockpit (Some \<lparr>device_id = 1, name = ''mower''\<rparr>))
                  \<lparr>LawnmowerId = 1, State = 5\<rparr>)
               \<lparr>LawnmowerId = 1, State = 5\<rparr>) =
     [\<lparr>msg_text = ''Device entered error state'', msg_type = ''error''\<rparr>,
      \<lparr>msg_text = ''Device entered error state'', msg_type = ''error''\<rparr>]"
proof -
  let ?d = "\<lparr>device_id = 1, name = ''mower''\<rparr>"
  let ?ev = "\<lparr>LawnmowerId = 1, State = 5\<rparr>"
  let ?s0 = "setDevice newCockpit (Some ?d)"
  let ?s1 = "handleStateUpdate ?s0 ?ev"
  have dev: "currentDevice ?s1 = Some ?d"
    by (simp add: handleStateUpdate_def updateDeviceState_def setDevice_def)
  have prev: "lastStates ?s1 (device_id ?d) = Some 5"
    by (simp add: handleStateUpdate_def updateDeviceState_def setDevice_def)
  have log: "messages ?s1 = [\<lparr>msg_text = ''Device entered error state'', msg_type = ''error''\<rparr>]"
    by (simp add: handleStateUpdate_def updateDeviceState_def setDevice_def addMessage_messages
        newCockpit_def)
  from C10_error_state_message [OF dev, of ?ev] dev prev log show ?thesis
    by simp
qed

section \<open>Properties of the status aggregator\<close>

text \<open>
  C5. For the history \<open>(t0, Mowing)\<close>, \<open>(t0 + 30 s, Mowing)\<close>,
  \<open>(t0 + 45 s, Station Charging)\<close> and the window end \<open>t0 + 60 s\<close>, grouping
  the timeline gives two segments, Mowing for 45 seconds and then Station
  Charging for 15 seconds, and the distribution gives Station Charging 25 and
  Mowing 75 percent (\<^verbatim>\<open>Object.entries\<close> lists key 0 before key 2).
\<close>

theorem C5_status_aggregation:
  "groupConsecutiveStates
     (timeline (processStatusData
        [\<lparr>timestamp = t0, state = 2\<rparr>, \<lparr>timestamp = t0 + 30000, state = 2\<rparr>,
         \<lparr>timestamp = t0 + 45000, state = 0\<rparr>] (t0 + 60000))) =
     [\<lparr>stateId = 2, stateName = Some ''Mowing'', duration = 45,
       startTime = t0, endTime = t0 + 45000\<rparr>,
      \<lparr>stateId = 0, stateName = Some ''Station Charging'', duration = 15,
       startTime = t0 + 45000, endTime = t0 + 60000\<rparr>] \<and>
   statusData (processStatusData
        [\<lparr>timestamp = t0, state = 2\<rparr>, \<lparr>timestamp = t0 + 30000, state = 2\<rparr>,
         \<lparr>timestamp = t0 + 45000, state = 0\<rparr>] (t0 + 60000)) =
     [\<lparr>stateId = 0, stateName = Some ''Station Charging'', duration = 15,
       percentage = Fin 25, color = Some ''#39FF14''\<rparr>,
      \<lparr>stateId = 2, stateName = Some ''Mowing'', duration = 45,
       percentage = Fin 75, color = Some ''#7F8F3D''\<rparr>]"
  by (simp add: processStatusData_def groupConsecutiveStates_def addDuration_def setProp_def
      Object_entries_def isArrayIndex_def statusNames_def statusColors_def Let_def)

section \<open>Properties of the stuck-tracking anchor\<close>

text \<open>
  C3 (counterexample). A device is bound, reports Mowing, sends one GPS sample
  (which records the anchor) and then reports Paused. After the last state
  update the last known state is Paused (4) and the anchor is still there:
  \<open>handleStateUpdate\<close> does not touch \<open>stuckPositions\<close>.
\<close>

theorem C3_stale_anchor:
  "stuckPositions
     (handleStateUpdate
        (handleGpsUpdate
           (handleStateUpdate (setDevice newCockpit (Some \<lparr>device_id = 1, name = ''mower''\<rparr>))
              \<lparr>LawnmowerId = 1, State = 2\<rparr>)
           \<lparr>LawnmowerId = 1, Latitude = 47, Longitude = 8\<rparr> 1000 1000)
        \<lparr>LawnmowerId = 1, State = 4\<rparr>) 1 =
     Some \<lparr>timestamp = 1000, latitude = 47, longitude = 8\<rparr> \<and>
   lastStates
     (handleStateUpdate
        (handleGpsUpdate
           (handleStateUpdate (setDevice newCockpit (Some \<lparr>device_id = 1, name = ''mower''\<rparr>))
              \<lparr>LawnmowerId = 1, State = 2\<rparr>)
           \<lparr>LawnmowerId = 1, Latitude = 47, Longitude = 8\<rparr> 1000 1000)
        \<lparr>LawnmowerId = 1, State = 4\<rparr>) 1 = Some 4"
  by (simp add: handleStateUpdate_def handleGpsUpdate_def updateDeviceState_def
      updateGpsPosition_def checkStuckDetection_def generateStateChangeMessage_def
      setDevice_def newCockpit_def Let_def)

lemma checkStuckDetection_lastStates [simp]:
  "lastStates (checkStuckDetection s lat lon now) = lastStates s"
  by (simp add: checkStuckDetection_def Let_def split: option.splits)

lemma checkStuckDetection_anchor_state:
  assumes "currentDevice s = Some dev"
    and "stuckPositions (checkStuckDetection s lat lon now) (device_id dev) \<noteq> None"
  shows "lastStates s (device_id dev) = Some 2 \<or> lastStates s (device_id dev) = Some 3"
  using assms
  by (auto simp: checkStuckDetection_def Let_def split: option.splits if_splits)

lemma handleStateUpdate_stuckPositions:
  "stuckPositions (handleStateUpdate s ev) = stuckPositions s"
  by (simp add: handleStateUpdate_def updateDeviceState_def generateStateChangeMessage_def
      Let_def split: option.splits)

lemma handleBatteryUpdate_stuckPositions:
  "stuckPositions (handleBatteryUpdate s ev) = stuckPositions s"
  by (simp add: handleBatteryUpdate_def checkBatteryWarnings_def split: option.splits)

text \<open>
  C3 (amended). Immediately after a processed GPS update an anchor exists for
  the bound device only if the last known state is Mowing (2) or Returning to
  Station (3), and a GPS update processed while the last known state is outside
  these two leaves no anchor. State updates and battery updates never change
  \<open>stuckPositions\<close>, so between a state update that leaves the two states and
  the next GPS update the old anchor is still stored.
\<close>

theorem C3_anchor_only_in_motion_states:
  "(currentDevice s = Some dev \<and> LawnmowerId g = device_id dev \<and>
    stuckPositions (handleGpsUpdate s g ts now) (device_id dev) \<noteq> None \<longrightarrow>
      lastStates (handleGpsUpdate s g ts now) (device_id dev) = Some 2 \<or>
      lastStates (handleGpsUpdate s g ts now) (device_id dev) = Some 3) \<and>
   (currentDevice s = Some dev \<and> LawnmowerId g = device_id dev \<and>
    lastStates s (device_id dev) \<noteq> Some 2 \<and> lastStates s (device_id dev) \<noteq> Some 3 \<longrightarrow>
      stuckPositions (handleGpsUpdate s g ts now) (device_id dev) = None) \<and>
   stuckPositions (handleStateUpdate s st) = stuckPositions s \<and>
   stuckPositions (handleBatteryUpdate s b) = stuckPositions s"
proof (intro conjI impI)
  assume a: "currentDevice s = Some dev \<and> LawnmowerId g = device_id dev \<and>
    stuckPositions (handleGpsUpdate s g ts now) (device_id dev) \<noteq> None"
  let ?s1 = "updateGpsPosition s (Latitude g) (Longitude g) ts"
  from a have run: "handleGpsUpdate s g ts now =
      checkStuckDetection ?s1 (Latitude g) (Longitude g) now"
    by (simp add: handleGpsUpdate_def)
  have dev1: "currentDevice ?s1 = Some dev"
    using a by (simp add: updateGpsPosition_def)
  from a run have ne:
    "stuckPositions (checkStuckDetection ?s1 (Latitude g) (Longitude g) now) (device_id dev) \<noteq> None"
    by simp
  have "lastStates ?s1 (device_id dev) = Some 2 \<or> lastStates ?s1 (device_id dev) = Some 3"
    by (rule checkStuckDetection_anchor_state [OF dev1 ne])
  then show "lastStates (handleGpsUpdate s g ts now) (device_id dev) = Some 2 \<or>
      lastStates (handleGpsUpdate s g ts now) (device_id dev) = Some 3"
    by (simp add: run updateGpsPosition_def)
next
  assume "currentDevice s = Some dev \<and> LawnmowerId g = device_id dev \<and>
    lastStates s (device_id dev) \<noteq> Some 2 \<and> lastStates s (device_id dev) \<noteq> Some 3"
  then show "stuckPositions (handleGpsUpdate s g ts now) (device_id dev) = None"
    by (simp add: handleGpsUpdate_def updateGpsPosition_def checkStuckDetection_def Let_def)
next
  show "stuckPositions (handleStateUpdate s st) = stuckPositions s"
    by (rule handleStateUpdate_stuckPositions)
  show "stuckPositions (handleBatteryUpdate s b) = stuckPositions s"
    by (rule handleBatteryUpdate_stuckPositions)
qed


theorem C3_anchor_only_in_motion_states_witness:
  "currentDevice mowingSession = Some \<lparr>device_id = 1, name = ''mower''\<rparr> \<and>
   stuckPositions
     (handleGpsUpdate mowingSession \<lparr>LawnmowerId = 1, Latitude = 47, Longitude = 8\<rparr> 1000 1000)
     1 \<noteq> None \<and>
   (lastStates
      (handleGpsUpdate mowingSession \<lparr>LawnmowerId = 1, Latitude = 47, Longitude = 8\<rparr> 1000 1000)
      1 = Some 2 \<or>
    lastStates
      (handleGpsUpdate mowingSession \<lparr>LawnmowerId = 1, Latitude = 47, Longitude = 8\<rparr> 1000 1000)
      1 = Some 3) \<and>
   lastStates
     (handleStateUpdate
        (handleGpsUpdate mowingSession \<lparr>LawnmowerId = 1, Latitude = 47, Longitude = 8\<rparr> 1000 1000)
        \<lparr>LawnmowerId = 1, State = 4\<rparr>) 1 = Some 4 \<and>
   stuckPositions
     (handleGpsUpdate
        (handleStateUpdate
           (handleGpsUpdate mowingSession \<lparr>LawnmowerId = 1, Latitude = 47, Longitude = 8\<rparr> 1000 1000)
           \<lparr>LawnmowerId = 1, State = 4\<rparr>)
        \<lparr>LawnmowerId = 1, Latitude = 47, Longitude = 8\<rparr> 2000 2000) 1 = None"
proof -
  let ?d = "\<lparr>device_id = 1, name = ''mower''\<rparr>"
  let ?g = "\<lparr>LawnmowerId = 1, Latitude = 47, Longitude = 8\<rparr>"
  let ?s2 = "handleGpsUpdate mowingSession ?g 1000 1000"
  let ?s3 = "handleStateUpdate ?s2 \<lparr>LawnmowerId = 1, State = 4\<rparr>"
  note defs = mowingSession_def handleStateUpdate_def handleGpsUpdate_def updateDeviceState_def
    updateGpsPosition_def checkStuckDetection_def generateStateChangeMessage_def setDevice_def
    newCockpit_def Let_def
  have dev: "currentDevice mowingSession = Some ?d"
    by (simp add: defs)
  have ident: "LawnmowerId ?g = device_id ?d"
    by simp
  have anchor: "stuckPositions ?s2 (device_id ?d) \<noteq> None"
    by (simp add: defs)
  have dev3: "currentDevice ?s3 = Some ?d"
    by (simp add: defs)
  have paused: "lastStates ?s3 (device_id ?d) = Some 4"
    by (simp add: defs)
  have paused': "lastStates ?s3 (device_id ?d) \<noteq> Some 2 \<and> lastStates ?s3 (device_id ?d) \<noteq> Some 3"
    using paused by simp
  have one: "device_id ?d = 1"
    by simp
  from C3_anchor_only_in_motion_states [of mowingSession ?d ?g 1000 1000]
       C3_anchor_only_in_motion_states [of ?s3 ?d ?g 2000 2000]
       dev ident anchor dev3 paused paused'
  show ?thesis
    unfolding one by blast
qed

section \<open>Properties of the stuck detector\<close>

lemma handleGpsUpdates_append:
  "handleGpsUpdates s (xs @ ys) = handleGpsUpdates (handleGpsUpdates s xs) ys"
  by (induction xs arbitrary: s) auto

lemma first_sample_sets_anchor:
  assumes "currentDevice s = Some dev" and "LawnmowerId ev = device_id dev"
    and "lastStates s (device_id dev) = Some 2 \<or> lastStates s (device_id dev) = Some 3"
    and "stuckPositions s (device_id dev) = None"
  shows "handleGpsUpdate s ev ts now =
           s\<lparr>lastPosition := Some \<lparr>timestamp = ts, latitude = Latitude ev, longitude = Longitude ev\<rparr>,
             stuckPositions := (stuckPositions s)(device_id dev \<mapsto> gpsAnchor (ev, ts, now))\<rparr>"
  using assms
  by (auto simp: handleGpsUpdate_def updateGpsPosition_def checkStuckDetection_def
      gpsAnchor_def gpsClock_def Let_def)

lemma quiet_sample:
  assumes "currentDevice s = Some dev" and "LawnmowerId ev = device_id dev"
    and "lastStates s (device_id dev) = Some 2 \<or> lastStates s (device_id dev) = Some 3"
    and "stuckPositions s (device_id dev) = Some a"
    and "calculateDistance (latitude a) (longitude a) (Latitude ev) (Longitude ev) \<le> 1"
    and "real_of_int (now - timestamp a) / 1000 \<le> stuckThreshold (config s)"
  shows "handleGpsUpdate s ev ts now =
           s\<lparr>lastPosition := Some \<lparr>timestamp = ts, latitude = Latitude ev, longitude = Longitude ev\<rparr>\<rparr>"
  using assms
  by (auto simp: handleGpsUpdate_def updateGpsPosition_def checkStuckDetection_def Let_def)

lemma alerting_sample:
  assumes "currentDevice s = Some dev" and "LawnmowerId ev = device_id dev"
    and "lastStates s (device_id dev) = Some 2 \<or> lastStates s (device_id dev) = Some 3"
    and "stuckPositions s (device_id dev) = Some a"
    and "calculateDistance (latitude a) (longitude a) (Latitude ev) (Longitude ev) \<le> 1"
    and "stuckThreshold (config s) < real_of_int (now - timestamp a) / 1000"
  shows "handleGpsUpdate s ev ts now =
           s\<lparr>lastPosition := Some \<lparr>timestamp = ts, latitude = Latitude ev, longitude = Longitude ev\<rparr>,
             messages := stuckMessage (real_of_int (now - timestamp a) / 1000) # take 999 (messages s),
             stuckPositions := (stuckPositions s)(device_id dev \<mapsto> gpsAnchor (ev, ts, now))\<rparr>"
  using assms
  by (auto simp: handleGpsUpdate_def updateGpsPosition_def checkStuckDetection_def
      gpsAnchor_def gpsClock_def stuckMessage_def addMessage_def Let_def)

lemma quiet_run:
  assumes "currentDevice s = Some dev"
    and "lastStates s (device_id dev) = Some 2 \<or> lastStates s (device_id dev) = Some 3"
    and "stuckPositions s (device_id dev) = Some a"
    and "\<forall>e\<in>set evs. LawnmowerId (fst e) = device_id dev \<and>
           calculateDistance (latitude a) (longitude a) (Latitude (fst e)) (Longitude (fst e)) \<le> 1 \<and>
           real_of_int (gpsClock e - timestamp a) / 1000 \<le> stuckThreshold (config s)"
  shows "\<exists>p. handleGpsUpdates s evs = s\<lparr>lastPosition := p\<rparr>"
  using assms
proof (induction evs arbitrary: s)
  case Nil
  have "s = s\<lparr>lastPosition := lastPosition s\<rparr>"
    by simp
  then show ?case
    by (metis handleGpsUpdates.simps(1))
next
  case (Cons e evs)
  obtain ev ts now where e: "e = (ev, ts, now)"
    by (cases e) auto
  let ?s1 = "s\<lparr>lastPosition := Some \<lparr>timestamp = ts, latitude = Latitude ev, longitude = Longitude ev\<rparr>\<rparr>"
  have step: "handleGpsUpdate s ev ts now = ?s1"
    using Cons.prems e by (intro quiet_sample [where a = a and dev = dev]) (auto simp: gpsClock_def)
  have "\<exists>p. handleGpsUpdates ?s1 evs = ?s1\<lparr>lastPosition := p\<rparr>"
    using Cons.prems by (intro Cons.IH) auto
  then obtain p where "handleGpsUpdates ?s1 evs = ?s1\<lparr>lastPosition := p\<rparr>"
    by blast
  then have "handleGpsUpdates s (e # evs) = s\<lparr>lastPosition := p\<rparr>"
    by (simp add: e step)
  then show ?case
    by blast
qed


lemma run_before_alert:
  assumes "currentDevice s = Some dev"
    and "lastStates s (device_id dev) = Some 2 \<or> lastStates s (device_id dev) = Some 3"
    and "stuckPositions s (device_id dev) = None"
    and "LawnmowerId (fst e0) = device_id dev"
    and "\<forall>e\<in>set pre. LawnmowerId (fst e) = device_id dev \<and> gpsDistance e0 e \<le> 1 \<and>
           real_of_int (gpsClock e - gpsClock e0) / 1000 \<le> stuckThreshold (config s)"
  shows "\<exists>p. handleGpsUpdates s (e0 # pre) =
           s\<lparr>lastPosition := p,
             stuckPositions := (stuckPositions s)(device_id dev \<mapsto> gpsAnchor e0)\<rparr>"
proof -
  obtain ev ts now where e0: "e0 = (ev, ts, now)"
    by (cases e0) auto
  let ?s1 = "s\<lparr>lastPosition := Some \<lparr>timestamp = ts, latitude = Latitude ev, longitude = Longitude ev\<rparr>,
               stuckPositions := (stuckPositions s)(device_id dev \<mapsto> gpsAnchor e0)\<rparr>"
  have step: "handleGpsUpdate s ev ts now = ?s1"
    using assms(1-4) unfolding e0 by (intro first_sample_sets_anchor) auto
  have "\<exists>p. handleGpsUpdates ?s1 pre = ?s1\<lparr>lastPosition := p\<rparr>"
    using assms
    by (intro quiet_run [where dev = dev and a = "gpsAnchor e0"])
       (auto simp: gpsAnchor_def gpsDistance_def)
  then obtain p where "handleGpsUpdates ?s1 pre = ?s1\<lparr>lastPosition := p\<rparr>"
    by blast
  then have "handleGpsUpdates s (e0 # pre) =
      s\<lparr>lastPosition := p, stuckPositions := (stuckPositions s)(device_id dev \<mapsto> gpsAnchor e0)\<rparr>"
    by (simp add: e0 step)
  then show ?thesis
    by blast
qed

lemma run_through_alert:
  assumes "currentDevice s = Some dev"
    and "lastStates s (device_id dev) = Some 2 \<or> lastStates s (device_id dev) = Some 3"
    and "stuckPositions s (device_id dev) = None"
    and "LawnmowerId (fst e0) = device_id dev"
    and "\<forall>e\<in>set pre. LawnmowerId (fst e) = device_id dev \<and> gpsDistance e0 e \<le> 1 \<and>
           real_of_int (gpsClock e - gpsClock e0) / 1000 \<le> stuckThreshold (config s)"
    and "LawnmowerId (fst ek) = device_id dev" and "gpsDistance e0 ek \<le> 1"
    and "stuckThreshold (config s) < real_of_int (gpsClock ek - gpsClock e0) / 1000"
    and "\<forall>e\<in>set post. LawnmowerId (fst e) = device_id dev \<and> gpsDistance ek e \<le> 1 \<and>
           real_of_int (gpsClock e - gpsClock ek) / 1000 \<le> stuckThreshold (config s)"
  shows "\<exists>p. handleGpsUpdates s (e0 # pre @ ek # post) =
           s\<lparr>lastPosition := p,
             messages := stuckMessage (real_of_int (gpsClock ek - gpsClock e0) / 1000) #
                           take 999 (messages s),
             stuckPositions := (stuckPositions s)(device_id dev \<mapsto> gpsAnchor ek)\<rparr>"
proof -
  let ?id = "device_id dev"
  from run_before_alert [OF assms(1-5)] obtain p1 where
    before: "handleGpsUpdates s (e0 # pre) =
      s\<lparr>lastPosition := p1, stuckPositions := (stuckPositions s)(?id \<mapsto> gpsAnchor e0)\<rparr>"
    by blast
  let ?s1 = "s\<lparr>lastPosition := p1, stuckPositions := (stuckPositions s)(?id \<mapsto> gpsAnchor e0)\<rparr>"
  obtain ev ts now where ek: "ek = (ev, ts, now)"
    by (cases ek) auto
  let ?s2 = "?s1\<lparr>lastPosition := Some \<lparr>timestamp = ts, latitude = Latitude ev, longitude = Longitude ev\<rparr>,
                 messages := stuckMessage (real_of_int (now - timestamp (gpsAnchor e0)) / 1000) #
                               take 999 (messages ?s1),
                 stuckPositions := (stuckPositions ?s1)(?id \<mapsto> gpsAnchor (ev, ts, now))\<rparr>"
  have alert: "handleGpsUpdate ?s1 ev ts now = ?s2"
    using assms(1,2,6,7,8) unfolding ek
    by (intro alerting_sample [where a = "gpsAnchor e0"])
       (auto simp: gpsAnchor_def gpsDistance_def gpsClock_def)
  have "\<exists>p. handleGpsUpdates ?s2 post = ?s2\<lparr>lastPosition := p\<rparr>"
    using assms(1,2,9)
    by (intro quiet_run [where dev = dev and a = "gpsAnchor ek"])
       (auto simp: gpsAnchor_def gpsDistance_def ek)
  then obtain p where after: "handleGpsUpdates ?s2 post = ?s2\<lparr>lastPosition := p\<rparr>"
    by blast
  have "handleGpsUpdates s (e0 # pre @ ek # post) =
      handleGpsUpdates (handleGpsUpdates s (e0 # pre)) (ek # post)"
    using handleGpsUpdates_append [of s "e0 # pre" "ek # post"] by simp
  also have "\<dots> = handleGpsUpdates ?s2 post"
    by (simp add: before ek alert)
  also have "\<dots> = s\<lparr>lastPosition := p,
      messages := stuckMessage (real_of_int (gpsClock ek - gpsClock e0) / 1000) # take 999 (messages s),
      stuckPositions := (stuckPositions s)(?id \<mapsto> gpsAnchor ek)\<rparr>"
    unfolding after by (simp add: ek gpsAnchor_def gpsClock_def)
  finally show ?thesis
    by blast
qed

lemma sorted_le_last:
  fixes xs :: "int list"
  assumes "sorted xs" and "x \<in> set xs"
  shows "x \<le> last xs"
  using assms by (induction xs) auto


text \<open>
  C4. The last known state is Mowing, there is no anchor yet, the threshold is
  the default 90 seconds, and five GPS events for the bound device arrive whose
  positions are pairwise within 0.5 m, whose clock readings do not decrease and
  whose last reading is 91 seconds after the first. Then there is one sample
  \<open>k\<close> (not the first) such that the log is unchanged until sample \<open>k\<close> has been
  handled, and from then on, up to the end of the sequence, it is the old log
  with exactly one stuck alert in front; the anchor at the end is sample \<open>k\<close>.
\<close>

theorem C4_single_stuck_alert:
  assumes dev: "currentDevice s = Some dev"
    and mowing: "lastStates s (device_id dev) = Some 2"
    and fresh: "stuckPositions s (device_id dev) = None"
    and threshold: "stuckThreshold (config s) = 90"
    and five: "length evs = 5"
    and ident: "\<forall>e\<in>set evs. LawnmowerId (fst e) = device_id dev"
    and close: "\<forall>e\<in>set evs. \<forall>e'\<in>set evs. gpsDistance e e' \<le> 1 / 2"
    and clock: "sorted (map gpsClock evs)"
    and span: "gpsClock (last evs) - gpsClock (hd evs) = 91000"
  shows "\<exists>k. 0 < k \<and> k < 5 \<and>
           (\<forall>i\<le>k. messages (handleGpsUpdates s (take i evs)) = messages s) \<and>
           (\<forall>i. k < i \<longrightarrow>
                messages (handleGpsUpdates s (take i evs)) =
                  stuckMessage (real_of_int (gpsClock (evs ! k) - gpsClock (hd evs)) / 1000) #
                    take 999 (messages s)) \<and>
           stuckPositions (handleGpsUpdates s evs) (device_id dev) = Some (gpsAnchor (evs ! k))"
proof -
  let ?id = "device_id dev"
  have state: "lastStates s ?id = Some 2 \<or> lastStates s ?id = Some 3"
    using mowing by simp
  obtain e0 rest where evs: "evs = e0 # rest"
    using five by (cases evs) auto
  have rest_ne: "rest \<noteq> []"
    using five evs by auto
  define P where "P e \<longleftrightarrow> real_of_int (gpsClock e - gpsClock e0) / 1000 \<le> 90" for e
  define pre where "pre = takeWhile P rest"
  have split: "rest = pre @ dropWhile P rest"
    by (simp add: pre_def)
  have last_rest: "last rest = last evs"
    using rest_ne evs by simp
  have "\<not> P (last rest)"
    using span by (simp add: P_def last_rest evs)
  moreover have "last rest \<in> set rest"
    using rest_ne by simp
  ultimately have "dropWhile P rest \<noteq> []"
    by (auto simp: dropWhile_eq_Nil_conv)
  then obtain ek post where suffix: "dropWhile P rest = ek # post"
    by (cases "dropWhile P rest") auto
  have not_P_ek: "\<not> P ek"
    using hd_dropWhile [of P rest] suffix by simp
  have rest: "rest = pre @ ek # post"
    using split suffix by simp
  have whole: "evs = e0 # pre @ ek # post"
    using evs rest by simp
  define k where "k = Suc (length pre)"
  have k_pos: "0 < k" and k_lt: "k < 5"
    using five whole by (auto simp: k_def)
  have at_k: "evs ! k = ek"
    by (simp add: whole k_def nth_append)
  have hd_evs: "hd evs = e0"
    by (simp add: evs)
  \<comment> \<open>the samples before the alert\<close>
  have pre_ok: "\<forall>e\<in>set pre. LawnmowerId (fst e) = ?id \<and> gpsDistance e0 e \<le> 1 \<and>
      real_of_int (gpsClock e - gpsClock e0) / 1000 \<le> stuckThreshold (config s)"
  proof
    fix e assume e: "e \<in> set pre"
    then have "e \<in> set rest" and "P e"
      using set_takeWhileD [of e P rest] by (simp_all add: pre_def)
    then have "e \<in> set evs"
      by (simp add: evs)
    moreover have "e0 \<in> set evs"
      by (simp add: evs)
    ultimately have "LawnmowerId (fst e) = ?id" and "gpsDistance e0 e \<le> 1 / 2"
      using ident close by blast+
    with \<open>P e\<close> show "LawnmowerId (fst e) = ?id \<and> gpsDistance e0 e \<le> 1 \<and>
      real_of_int (gpsClock e - gpsClock e0) / 1000 \<le> stuckThreshold (config s)"
      by (simp add: P_def threshold)
  qed
  have id0: "LawnmowerId (fst e0) = ?id"
    using ident by (simp add: evs)
  \<comment> \<open>the alerting sample\<close>
  have idk: "LawnmowerId (fst ek) = ?id"
    using ident by (simp add: whole)
  have distk: "gpsDistance e0 ek \<le> 1"
  proof -
    have "e0 \<in> set evs" and "ek \<in> set evs"
      by (simp_all add: whole)
    with close have "gpsDistance e0 ek \<le> 1 / 2"
      by blast
    then show ?thesis by simp
  qed
  have late: "stuckThreshold (config s) < real_of_int (gpsClock ek - gpsClock e0) / 1000"
    using not_P_ek by (simp add: P_def threshold)
  have late_int: "gpsClock e0 + 90000 < gpsClock ek"
    using not_P_ek by (simp add: P_def)
  \<comment> \<open>the samples after the alert\<close>
  have post_ok: "\<forall>e\<in>set post. LawnmowerId (fst e) = ?id \<and> gpsDistance ek e \<le> 1 \<and>
      real_of_int (gpsClock e - gpsClock ek) / 1000 \<le> stuckThreshold (config s)"
  proof
    fix e assume e: "e \<in> set post"
    then have mem: "e \<in> set evs"
      by (simp add: whole)
    have "gpsClock e \<in> set (map gpsClock evs)"
      using mem by simp
    then have "gpsClock e \<le> last (map gpsClock evs)"
      by (rule sorted_le_last [OF clock])
    moreover have "evs \<noteq> []"
      using five by auto
    ultimately have "gpsClock e \<le> gpsClock (last evs)"
      by (simp add: last_map)
    with span have "gpsClock e \<le> gpsClock e0 + 91000"
      by (simp add: hd_evs)
    with late_int have "gpsClock e - gpsClock ek \<le> 90000"
      by simp
    then have "real_of_int (gpsClock e - gpsClock ek) \<le> 90000"
      by linarith
    then have t: "real_of_int (gpsClock e - gpsClock ek) / 1000 \<le> stuckThreshold (config s)"
      by (simp add: threshold)
    have "ek \<in> set evs"
      by (simp add: whole)
    with close mem have "gpsDistance ek e \<le> 1 / 2"
      by blast
    then have "gpsDistance ek e \<le> 1"
      by simp
    with t ident mem show "LawnmowerId (fst e) = ?id \<and> gpsDistance ek e \<le> 1 \<and>
      real_of_int (gpsClock e - gpsClock ek) / 1000 \<le> stuckThreshold (config s)"
      by simp
  qed
  \<comment> \<open>the log after the first \<open>i\<close> samples\<close>
  have early: "messages (handleGpsUpdates s (take i evs)) = messages s" if "i \<le> k" for i
  proof (cases i)
    case 0
    then show ?thesis by simp
  next
    case (Suc j)
    with that have j: "j \<le> length pre"
      by (simp add: k_def)
    have prefix: "take i evs = e0 # take j pre"
      using j by (simp add: Suc whole)
    have "\<forall>e\<in>set (take j pre). LawnmowerId (fst e) = ?id \<and> gpsDistance e0 e \<le> 1 \<and>
        real_of_int (gpsClock e - gpsClock e0) / 1000 \<le> stuckThreshold (config s)"
      using pre_ok by (meson in_set_takeD)
    from run_before_alert [OF dev state fresh id0 this] obtain p where
      "handleGpsUpdates s (e0 # take j pre) =
         s\<lparr>lastPosition := p, stuckPositions := (stuckPositions s)(?id \<mapsto> gpsAnchor e0)\<rparr>"
      by blast
    then show ?thesis
      unfolding prefix by simp
  qed
  have later: "messages (handleGpsUpdates s (take i evs)) =
      stuckMessage (real_of_int (gpsClock ek - gpsClock e0) / 1000) # take 999 (messages s)"
    if "k < i" for i
  proof -
    have prefix: "take i evs = e0 # pre @ ek # take (i - Suc k) post"
      using that by (simp add: whole k_def take_Cons' take_append)
    have "\<forall>e\<in>set (take (i - Suc k) post). LawnmowerId (fst e) = ?id \<and> gpsDistance ek e \<le> 1 \<and>
        real_of_int (gpsClock e - gpsClock ek) / 1000 \<le> stuckThreshold (config s)"
      using post_ok by (meson in_set_takeD)
    from run_through_alert [OF dev state fresh id0 pre_ok idk distk late this] obtain p where
      "handleGpsUpdates s (e0 # pre @ ek # take (i - Suc k) post) =
         s\<lparr>lastPosition := p,
           messages := stuckMessage (real_of_int (gpsClock ek - gpsClock e0) / 1000) #
                         take 999 (messages s),
           stuckPositions := (stuckPositions s)(?id \<mapsto> gpsAnchor ek)\<rparr>"
      by blast
    then show ?thesis
      unfolding prefix by simp
  qed
  have anchor: "stuckPositions (handleGpsUpdates s evs) ?id = Some (gpsAnchor ek)"
  proof -
    from run_through_alert [OF dev state fresh id0 pre_ok idk distk late post_ok] obtain p where
      "handleGpsUpdates s (e0 # pre @ ek # post) =
         s\<lparr>lastPosition := p,
           messages := stuckMessage (real_of_int (gpsClock ek - gpsClock e0) / 1000) #
                         take 999 (messages s),
           stuckPositions := (stuckPositions s)(?id \<mapsto> gpsAnchor ek)\<rparr>"
      by blast
    then show ?thesis
      unfolding whole by simp
  qed
  show ?thesis
  proof (intro exI [of _ k] conjI allI impI)
    show "0 < k" and "k < 5"
      by (rule k_pos, rule k_lt)
    show "messages (handleGpsUpdates s (take i evs)) = messages s" if "i \<le> k" for i
      using that by (rule early)
    show "messages (handleGpsUpdates s (take i evs)) =
        stuckMessage (real_of_int (gpsClock (evs ! k) - gpsClock (hd evs)) / 1000) #
          take 999 (messages s)" if "k < i" for i
      unfolding at_k hd_evs using that by (rule later)
    show "stuckPositions (handleGpsUpdates s evs) ?id = Some (gpsAnchor (evs ! k))"
      unfolding at_k by (rule anchor)
  qed
qed



lemma calculateDistance_same_longitude:
  assumes "\<bar>lat2 - lat1\<bar> < 180"
  shows "calculateDistance lat1 lon lat2 lon = 6371000 * (\<bar>lat2 - lat1\<bar> * pi / 180)"
proof -
  define x where "x = (lat2 - lat1) * pi / 180 / 2"
  have ax: "\<bar>x\<bar> = \<bar>lat2 - lat1\<bar> * pi / 360"
    by (simp add: x_def abs_mult)
  have "\<bar>lat2 - lat1\<bar> * pi < 180 * pi"
    using assms by simp
  then have bound: "\<bar>x\<bar> < pi / 2"
    by (simp add: ax)
  have nonneg: "0 \<le> \<bar>x\<bar>"
    by simp
  have cos_pos: "0 < cos x"
    using bound by (intro cos_gt_zero_pi) (simp_all add: abs_less_iff)
  have sin_abs: "\<bar>sin x\<bar> = sin \<bar>x\<bar>"
  proof (cases "0 \<le> x")
    case True
    then have "0 \<le> sin x"
      using bound by (intro sin_ge_zero) simp_all
    with True show ?thesis by simp
  next
    case False
    then have "0 \<le> sin (- x)"
      using bound by (intro sin_ge_zero) simp_all
    with False show ?thesis by simp
  qed
  have cos_abs: "cos x = cos \<bar>x\<bar>"
    by simp
  have a: "sin x * sin x + cos (lat1 * pi / 180) * cos (lat2 * pi / 180) * sin 0 * sin 0 =
      sin x * sin x"
    by simp
  have s1: "sqrt (sin x * sin x) = \<bar>sin x\<bar>"
    by simp
  have "1 - sin x * sin x = cos x * cos x"
    using sin_cos_squared_add [of x] by (simp add: power2_eq_square)
  then have s2: "sqrt (1 - sin x * sin x) = cos x"
    using cos_pos by simp
  have "atan2 \<bar>sin x\<bar> (cos x) = arctan (\<bar>sin x\<bar> / cos x)"
    using cos_pos by (simp add: atan2_def)
  also have "\<dots> = arctan (tan \<bar>x\<bar>)"
    by (simp add: tan_def sin_abs)
  also have "\<dots> = \<bar>x\<bar>"
    using bound by (intro arctan_tan) simp_all
  finally have c: "atan2 \<bar>sin x\<bar> (cos x) = \<bar>x\<bar>" .
  have "calculateDistance lat1 lon lat2 lon =
      6371000 * (2 * atan2 (sqrt (sin x * sin x)) (sqrt (1 - sin x * sin x)))"
    by (simp add: calculateDistance_def Let_def x_def)
  also have "\<dots> = 6371000 * (2 * \<bar>x\<bar>)"
    by (simp only: s1 s2 c)
  finally show ?thesis
    by (simp add: ax)
qed

lemma nearby_latitudes:
  assumes "\<bar>lat2 - lat1\<bar> \<le> 2 / 1000000"
  shows "calculateDistance lat1 lon lat2 lon \<le> 1 / 2"
proof -
  have "\<bar>lat2 - lat1\<bar> < 180"
    using assms by simp
  then have "calculateDistance lat1 lon lat2 lon = 6371000 * (\<bar>lat2 - lat1\<bar> * pi / 180)"
    by (rule calculateDistance_same_longitude)
  also have "\<dots> \<le> 6371000 * ((2 / 1000000) * 4 / 180)"
  proof -
    have "\<bar>lat2 - lat1\<bar> * pi \<le> (2 / 1000000) * 4"
      using assms pi_less_4 pi_gt_zero by (intro mult_mono) simp_all
    then show ?thesis by (simp add: mult_ac)
  qed
  also have "\<dots> \<le> 1 / 2"
    by simp
  finally show ?thesis .
qed


lemma nearby_latitudes_doubled:
  assumes "\<bar>lat2 - lat1\<bar> \<le> 2 / 1000000"
  shows "calculateDistance lat1 lon lat2 lon * 2 \<le> 1"
  using nearby_latitudes [OF assms, of lon] by simp

theorem C4_single_stuck_alert_witness:
  "currentDevice mowingSession = Some \<lparr>device_id = 1, name = ''mower''\<rparr> \<and>
   lastStates mowingSession 1 = Some 2 \<and>
   stuckPositions mowingSession 1 = None \<and>
   stuckThreshold (config mowingSession) = 90 \<and>
   length motionlessSamples = 5 \<and>
   sorted (map gpsClock motionlessSamples) \<and>
   gpsClock (last motionlessSamples) - gpsClock (hd motionlessSamples) = 91000 \<and>
   (\<exists>k. 0 < k \<and> k < 5 \<and>
      (\<forall>i\<le>k. messages (handleGpsUpdates mowingSession (take i motionlessSamples)) =
                messages mowingSession) \<and>
      (\<forall>i. k < i \<longrightarrow>
           messages (handleGpsUpdates mowingSession (take i motionlessSamples)) =
             stuckMessage (real_of_int (gpsClock (motionlessSamples ! k) -
                                        gpsClock (hd motionlessSamples)) / 1000) #
               take 999 (messages mowingSession)) \<and>
      stuckPositions (handleGpsUpdates mowingSession motionlessSamples)
        (device_id \<lparr>device_id = 1, name = ''mower''\<rparr>) =
        Some (gpsAnchor (motionlessSamples ! k)))"
proof -
  let ?d = "\<lparr>device_id = 1, name = ''mower''\<rparr>"
  have dev: "currentDevice mowingSession = Some ?d"
    by (simp add: mowingSession_def handleStateUpdate_def updateDeviceState_def setDevice_def)
  have mowing: "lastStates mowingSession (device_id ?d) = Some 2"
    by (simp add: mowingSession_def handleStateUpdate_def updateDeviceState_def setDevice_def)
  have fresh: "stuckPositions mowingSession (device_id ?d) = None"
    by (simp add: mowingSession_def handleStateUpdate_def updateDeviceState_def setDevice_def)
  have threshold: "stuckThreshold (config mowingSession) = 90"
    by (simp add: mowingSession_def handleStateUpdate_def updateDeviceState_def setDevice_def
        newCockpit_def)
  have five: "length motionlessSamples = 5"
    by (simp add: motionlessSamples_def)
  have ident: "\<forall>e\<in>set motionlessSamples. LawnmowerId (fst e) = device_id ?d"
    by (simp add: motionlessSamples_def)
  have close: "\<forall>e\<in>set motionlessSamples. \<forall>e'\<in>set motionlessSamples. gpsDistance e e' \<le> 1 / 2"
    by (simp add: motionlessSamples_def gpsDistance_def nearby_latitudes_doubled)
  have clock: "sorted (map gpsClock motionlessSamples)"
    by (simp add: motionlessSamples_def gpsClock_def)
  have span: "gpsClock (last motionlessSamples) - gpsClock (hd motionlessSamples) = 91000"
    by (simp add: motionlessSamples_def gpsClock_def)
  from C4_single_stuck_alert [OF dev mowing fresh threshold five ident close clock span]
    dev mowing fresh threshold five clock span
  show ?thesis
    by simp
qed

end
